theory Spec2Isabelle
  imports Complex_Main
begin

section \<open>Data model of the command isolator\<close>

text \<open>
  The development embeds \<^verbatim>\<open>src/src/CommandIsolator.cpp\<close>: the four operations of
  \<^verbatim>\<open>CommandIsolatorProcess\<close> (prepare, watch, cleanup, usage) over the member
  \<^verbatim>\<open>hashmap<ContainerID, ContainerConfig> m_infos\<close>.

  Protobuf messages of Mesos are opaque payloads here: the code only stores, copies and
  serialises them.
\<close>

datatype ContainerID = ContainerID (cid_value: string)

datatype ContainerConfig = ContainerConfig string

datatype ContainerLaunchInfo = ContainerLaunchInfo string

datatype ContainerLimitation = ContainerLimitation string

text \<open>
  \<^verbatim>\<open>::mesos::ResourceStatistics\<close>: the timestamp that \<^verbatim>\<open>emptyStats\<close> sets, and the
  remaining (optional) fields, none of which \<^verbatim>\<open>emptyStats\<close> sets. The timestamp is a
  \<^verbatim>\<open>double\<close> that the code only copies, never computes with.
\<close>

record ResourceStatistics =
  timestamp :: real
  other_fields :: "(string \<times> real) list"

text \<open>
  Modelled from the spec: \<^verbatim>\<open>Command\<close> and \<^verbatim>\<open>RecurrentCommand\<close> are declared in
  \<^verbatim>\<open>CommandRunner.hpp\<close>, which is not part of the sources at hand. The spec's HookSpec
  is a command that may carry an execution timeout; the watch hook's spec additionally
  carries the poll interval, which the code reads as \<^verbatim>\<open>command.frequence()\<close> (seconds).
\<close>

record Command =
  cmd_line :: string
  cmd_timeout :: int

record RecurrentCommand = Command +
  frequence :: int

text \<open>stout's \<^verbatim>\<open>Try<T>\<close> and \<^verbatim>\<open>Result<T>\<close>.\<close>

datatype 'a Try = Error string | Value 'a

datatype 'a Result = RError string | RNone | RSome 'a

text \<open>
  A libprocess \<^verbatim>\<open>Future<T>\<close>: pending (with the flag that \<^verbatim>\<open>discard()\<close> sets on a
  pending future, read by \<^verbatim>\<open>hasDiscard()\<close>), ready, failed with a message, or discarded.
  \<^verbatim>\<open>Failure(msg)\<close> converts to a failed future. A value of this type is the state in
  which a future ends: a pending one is a future that nothing completes.
\<close>

datatype 'a Future = Pending (hasDiscard: bool) | Ready 'a | Failed string | Discarded

text \<open>\<^verbatim>\<open>Future<T>::discard()\<close>: a request, which only marks a pending future.\<close>

fun discard :: "'a Future \<Rightarrow> 'a Future" where
  "discard (Pending d) = Pending True"
| "discard (Ready v) = Ready v"
| "discard (Failed m) = Failed m"
| "discard Discarded = Discarded"

datatype 'a ControlFlow = Continue | Break 'a

text \<open>
  \<^verbatim>\<open>Result<T>::get()\<close> aborts the process unless the result holds a value. The code calls
  it after testing \<^verbatim>\<open>isError()\<close> only, so a call either returns or aborts.
\<close>

datatype 'a exec = Done 'a | Abort

text \<open>\<^verbatim>\<open>logging::Metadata\<close>: the container id's value and the name of the operation.\<close>

type_synonym Metadata = "string \<times> string"

text \<open>
  \<^verbatim>\<open>JSON::Object\<close>: \<^verbatim>\<open>values\<close> is a \<^verbatim>\<open>std::map\<close> from field name to value. The only
  values the code stores are \<^verbatim>\<open>JSON::protobuf\<close> of the container id and of the
  container configuration.
\<close>

datatype JSON = protobuf_id ContainerID | protobuf_config ContainerConfig

type_synonym JSON_Object = "string \<rightharpoonup> JSON"

text \<open>
  What an operation does besides returning, in the order it does it: writes to
  \<^verbatim>\<open>m_infos\<close>, hook invocations through \<^verbatim>\<open>CommandRunner\<close> (with the debug flag, the
  metadata, the command and the input document), warnings logged, the process spawned
  for a watch loop and its termination, and the delay between two polls.
\<close>

datatype event =
    Put ContainerID ContainerConfig
  | Erase ContainerID
  | Run bool Metadata Command string
  | RunWithoutTimeout bool Metadata RecurrentCommand string
  | AsyncRun bool Metadata Command string
  | LogWarning string
  | Spawn
  | Terminate
  | After int

record CommandIsolatorProcess =
  m_prepareCommand :: "Command option"
  m_watchCommand :: "RecurrentCommand option"
  m_cleanupCommand :: "Command option"
  m_usageCommand :: "Command option"
  m_isDebugMode :: bool
  m_infos :: "ContainerID \<rightharpoonup> ContainerConfig"

text \<open>
  The collaborators declared in \<^verbatim>\<open>CommandRunner.hpp\<close> and \<^verbatim>\<open>Helpers.hpp\<close> are
  parameters of the operations: \<open>stringify\<close> serialises the input document,
  \<open>run\<close> is what the executor answers for the debug flag, metadata, command and input
  it is given, and \<open>jsonToProtobuf\<close> decodes a hook's output.
\<close>

type_synonym stringifier = "JSON_Object \<Rightarrow> string"

type_synonym runner = "bool \<Rightarrow> Metadata \<Rightarrow> Command \<Rightarrow> string \<Rightarrow> string Try"

definition AlreadyInitialized :: string where
  "AlreadyInitialized = ''mesos-command-module already initialized for container''"

definition NotInitialized :: string where
  "NotInitialized = ''mesos-command-module is not initialized for current container''"

section \<open>prepare\<close>

definition prepare ::
  "stringifier \<Rightarrow> runner \<Rightarrow> (string \<Rightarrow> ContainerLaunchInfo Result) \<Rightarrow>
   CommandIsolatorProcess \<Rightarrow> ContainerID \<Rightarrow> ContainerConfig \<Rightarrow>
   ContainerLaunchInfo option Future exec \<times> CommandIsolatorProcess \<times> event list" where
  "prepare stringify run jsonToProtobuf this containerId containerConfig =
    (if containerId \<in> dom (m_infos this)
     then (Done (Failed AlreadyInitialized), this, [])
     else
       let this' = this\<lparr>m_infos := (m_infos this)(containerId \<mapsto> containerConfig)\<rparr>;
           ev = [Put containerId containerConfig]
       in case m_prepareCommand this' of
            None \<Rightarrow> (Done (Ready None), this', ev)
          | Some prepareCommand \<Rightarrow>
              let metadata = (cid_value containerId, ''prepare'');
                  inputsJson = (Map.empty(''container_id'' \<mapsto> protobuf_id containerId))
                                 (''container_config'' \<mapsto> protobuf_config containerConfig);
                  input = stringify inputsJson;
                  output = run (m_isDebugMode this') metadata prepareCommand input;
                  ev' = ev @ [Run (m_isDebugMode this') metadata prepareCommand input]
              in case output of
                   Error e \<Rightarrow> (Done (Failed e), this', ev')
                 | Value out \<Rightarrow>
                     if out = [] then (Done (Ready None), this', ev')
                     else (case jsonToProtobuf out of
                             RError e \<Rightarrow>
                               (Done (Failed (''Unable to deserialize ContainerLaunchInfo: '' @ e)),
                                this', ev')
                           | RNone \<Rightarrow> (Abort, this', ev')
                           | RSome containerLaunchInfo \<Rightarrow>
                               (Done (Ready (Some containerLaunchInfo)), this', ev')))"

section \<open>cleanup\<close>

definition cleanup ::
  "stringifier \<Rightarrow> runner \<Rightarrow> CommandIsolatorProcess \<Rightarrow> ContainerID \<Rightarrow>
   unit Future \<times> CommandIsolatorProcess \<times> event list" where
  "cleanup stringify run this containerId =
    (case m_cleanupCommand this of
       None \<Rightarrow>
         (Ready (), this\<lparr>m_infos := (m_infos this)(containerId := None)\<rparr>, [Erase containerId])
     | Some cleanupCommand \<Rightarrow>
         let metadata = (cid_value containerId, ''cleanup'');
             inputsJson0 = Map.empty(''container_id'' \<mapsto> protobuf_id containerId);
             (inputsJson, ev) =
               (case m_infos this containerId of
                  Some config \<Rightarrow> (inputsJson0(''container_config'' \<mapsto> protobuf_config config), [])
                | None \<Rightarrow>
                    (inputsJson0,
                     [LogWarning ''Missing container info during cleanup of mesos-command-module.'']));
             input = stringify inputsJson;
             output = run (m_isDebugMode this) metadata cleanupCommand input;
             this' = this\<lparr>m_infos := (m_infos this)(containerId := None)\<rparr>;
             ev' = ev @ [Run (m_isDebugMode this) metadata cleanupCommand input, Erase containerId]
         in case output of
              Error e \<Rightarrow> (Failed e, this', ev')
            | Value out \<Rightarrow> (Ready (), this', ev'))"

section \<open>usage\<close>

definition emptyStats :: "real \<Rightarrow> ResourceStatistics" where
  "emptyStats t = \<lparr>timestamp = t, other_fields = []\<rparr>"

text \<open>
  libprocess's \<^verbatim>\<open>Future<T>::then\<close> and \<^verbatim>\<open>Future<T>::recover\<close>, on the state a future
  ends in: \<^verbatim>\<open>then\<close> runs its continuation on a ready future and passes failure and
  discarding on; \<^verbatim>\<open>recover\<close> runs its handler on a failed or discarded future and passes
  a ready one on. A future that nothing completes stays pending through both.
\<close>

fun future_then ::
  "'a Future \<Rightarrow> ('a \<Rightarrow> 'b Future exec \<times> event list) \<Rightarrow> 'b Future exec \<times> event list" where
  "future_then (Ready v) f = f v"
| "future_then (Failed m) f = (Done (Failed m), [])"
| "future_then Discarded f = (Done Discarded, [])"
| "future_then (Pending d) f = (Done (Pending False), [])"

fun recover ::
  "'a Future exec \<times> event list \<Rightarrow> ('a Future \<Rightarrow> 'a Future \<times> event list) \<Rightarrow>
   'a Future exec \<times> event list" where
  "recover (Done (Failed m), ev) f = (Done (fst (f (Failed m))), ev @ snd (f (Failed m)))"
| "recover (Done Discarded, ev) f = (Done (fst (f Discarded)), ev @ snd (f Discarded))"
| "recover (Done (Ready v), ev) f = (Done (Ready v), ev)"
| "recover (Done (Pending d), ev) f = (Done (Pending d), ev)"
| "recover (Abort, ev) f = (Abort, ev)"

text \<open>The continuation that \<^verbatim>\<open>usage\<close> passes to \<^verbatim>\<open>then\<close>, with \<open>now\<close> captured.\<close>

definition usage_then ::
  "(string \<Rightarrow> ResourceStatistics Result) \<Rightarrow> real \<Rightarrow> string Try \<Rightarrow>
   ResourceStatistics Future exec \<times> event list" where
  "usage_then jsonToProtobuf now output =
    (case output of
       Error e \<Rightarrow> (Done (Ready (emptyStats now)), [LogWarning (''Unable to parse output: '' @ e)])
     | Value out \<Rightarrow>
         if out = [] then (Done (Ready (emptyStats now)), [LogWarning ''Output is empty''])
         else (case jsonToProtobuf out of
                 RError e \<Rightarrow>
                   (Done (Ready (emptyStats now)),
                    [LogWarning (''Unable to deserialize ResourceStatistics: '' @ e)])
               | RNone \<Rightarrow> (Abort, [])
               | RSome resourceStatistics \<Rightarrow> (Done (Ready resourceStatistics), [])))"

text \<open>
  The handler that \<^verbatim>\<open>usage\<close> passes to \<^verbatim>\<open>recover\<close>. The warning also prints the future;
  the event keeps the fixed part of the message.
\<close>

definition usage_recover ::
  "real \<Rightarrow> ResourceStatistics Future \<Rightarrow> ResourceStatistics Future \<times> event list" where
  "usage_recover now result =
    (Ready (emptyStats now), [LogWarning ''Failed to run usage command: ''])"

text \<open>
  \<open>now\<close> is \<^verbatim>\<open>Clock::now().secs()\<close>, read on entry. \<open>asyncRun\<close> is the future
  that the executor's \<^verbatim>\<open>asyncRun\<close> gives.
\<close>

definition usage ::
  "stringifier \<Rightarrow> (bool \<Rightarrow> Metadata \<Rightarrow> Command \<Rightarrow> string \<Rightarrow> string Try Future) \<Rightarrow>
   (string \<Rightarrow> ResourceStatistics Result) \<Rightarrow> real \<Rightarrow>
   CommandIsolatorProcess \<Rightarrow> ContainerID \<Rightarrow> ResourceStatistics Future exec \<times> event list" where
  "usage stringify asyncRun jsonToProtobuf now this containerId =
    (case m_usageCommand this of
       None \<Rightarrow> (Done (Ready (emptyStats now)), [])
     | Some usageCommand \<Rightarrow>
         let metadata = (cid_value containerId, ''usage'')
         in case m_infos this containerId of
              None \<Rightarrow> (Done (Failed NotInitialized), [])
            | Some config \<Rightarrow>
                let inputsJson = (Map.empty(''container_id'' \<mapsto> protobuf_id containerId))
                                   (''container_config'' \<mapsto> protobuf_config config);
                    input = stringify inputsJson;
                    r = recover
                          (future_then (asyncRun (m_isDebugMode this) metadata usageCommand input)
                             (usage_then jsonToProtobuf now))
                          (usage_recover now)
                in (fst r, AsyncRun (m_isDebugMode this) metadata usageCommand input # snd r))"

section \<open>watch\<close>

text \<open>The exceptions thrown inside the body of the watch loop.\<close>

datatype exception = runtime_error string | should_continue_exception

text \<open>
  The \<^verbatim>\<open>try\<close> block of the loop body. \<open>infos\<close> is \<^verbatim>\<open>m_infos\<close> as it is when the body
  runs. A default-constructed future is pending, and no promise is behind it. The first
  warning prints the container id, shown here by its value.
\<close>

definition watch_try ::
  "(string \<Rightarrow> ContainerLimitation Result) \<Rightarrow> (ContainerID \<rightharpoonup> ContainerConfig) \<Rightarrow>
   ContainerID \<Rightarrow> string Try \<Rightarrow>
   exception + (ContainerLimitation ControlFlow Future exec \<times> event list)" where
  "watch_try jsonToProtobuf infos containerId output =
    (if \<not> (containerId \<in> dom infos)
     then Inr (Done (discard (Pending False)),
               [LogWarning (''Terminating watch loop for containerId: '' @ cid_value containerId)])
     else case output of
            Error e \<Rightarrow> Inl (runtime_error (''Unable to parse output: '' @ e))
          | Value out \<Rightarrow>
              if out = [] then Inl should_continue_exception
              else (case jsonToProtobuf out of
                      RError e \<Rightarrow>
                        Inl (runtime_error (''Unable to deserialize ContainerLimitation: '' @ e))
                    | RNone \<Rightarrow> Inr (Abort, [])
                    | RSome containerLimitation \<Rightarrow>
                        Inr (Done (Ready (Break containerLimitation)), [])))"

text \<open>
  The loop body: the \<^verbatim>\<open>try\<close> block, the two handlers, and after them the future of
  \<^verbatim>\<open>after(Seconds(command.frequence()))\<close>, which is ready with \<^verbatim>\<open>Continue\<close> once the
  delay has passed.
\<close>

definition watch_body ::
  "(string \<Rightarrow> ContainerLimitation Result) \<Rightarrow> RecurrentCommand \<Rightarrow>
   (ContainerID \<rightharpoonup> ContainerConfig) \<Rightarrow> ContainerID \<Rightarrow> string Try \<Rightarrow>
   ContainerLimitation ControlFlow Future exec \<times> event list" where
  "watch_body jsonToProtobuf command infos containerId output =
    (case watch_try jsonToProtobuf infos containerId output of
       Inr r \<Rightarrow> r
     | Inl (runtime_error what) \<Rightarrow>
         (Done (Ready Continue), [LogWarning what, After (frequence command)])
     | Inl should_continue_exception \<Rightarrow>
         (Done (Ready Continue), [After (frequence command)]))"

text \<open>The iterate function of the loop: one hook invocation, without timeout.\<close>

definition watch_iterate ::
  "(bool \<Rightarrow> Metadata \<Rightarrow> RecurrentCommand \<Rightarrow> string \<Rightarrow> string Try) \<Rightarrow>
   bool \<Rightarrow> Metadata \<Rightarrow> string \<Rightarrow> RecurrentCommand \<Rightarrow> string Try \<times> event list" where
  "watch_iterate runWithoutTimeout isDebugMode metadata inputStringified command =
    (runWithoutTimeout isDebugMode metadata command inputStringified,
     [RunWithoutTimeout isDebugMode metadata command inputStringified])"

text \<open>
  What the future of libprocess's \<^verbatim>\<open>loop\<close> becomes from the control flow that the body
  returns; \<open>None\<close> is \<^verbatim>\<open>Continue\<close>, on which the loop iterates again. A flow that is
  never completed leaves the loop stopped and its future pending.
\<close>

fun loop_flow :: "'r ControlFlow Future exec \<Rightarrow> 'r Future exec option" where
  "loop_flow (Done (Ready Continue)) = None"
| "loop_flow (Done (Ready (Break v))) = Some (Done (Ready v))"
| "loop_flow (Done (Failed m)) = Some (Done (Failed m))"
| "loop_flow (Done Discarded) = Some (Done Discarded)"
| "loop_flow (Done (Pending d)) = Some (Done (Pending False))"
| "loop_flow Abort = Some Abort"

text \<open>
  libprocess's \<^verbatim>\<open>loop(pid, iterate, body)\<close>, from poll number \<open>n\<close> on, observed for at
  most \<open>fuel\<close> polls: \<open>None\<close> when the loop is still polling after them, otherwise the
  state in which its future ends. No operation of the process discards the future of a
  loop, and the loop followed here is one that nobody discards from outside.
\<close>

fun loop ::
  "(nat \<Rightarrow> 'a \<times> event list) \<Rightarrow> (nat \<Rightarrow> 'a \<Rightarrow> 'r ControlFlow Future exec \<times> event list) \<Rightarrow>
   nat \<Rightarrow> nat \<Rightarrow> 'r Future exec option \<times> event list" where
  "loop iterate body n 0 = (None, [])"
| "loop iterate body n (Suc fuel) =
    (let nxt = iterate n;
         flow = body n (fst nxt)
     in case loop_flow (fst flow) of
          Some future \<Rightarrow> (Some future, snd nxt @ snd flow)
        | None \<Rightarrow>
            (let rest = loop iterate body (Suc n) fuel
             in (fst rest, snd nxt @ snd flow @ snd rest)))"

text \<open>
  The loop that \<^verbatim>\<open>watch\<close> starts, with its captures. \<open>runWithoutTimeout n\<close> is what
  the executor answers at poll \<open>n\<close>, and \<open>infos_at n\<close> is \<^verbatim>\<open>m_infos\<close> as the body finds
  it at poll \<open>n\<close>: the other operations of the process run between the polls.
\<close>

definition watch_loop ::
  "(nat \<Rightarrow> bool \<Rightarrow> Metadata \<Rightarrow> RecurrentCommand \<Rightarrow> string \<Rightarrow> string Try) \<Rightarrow>
   (string \<Rightarrow> ContainerLimitation Result) \<Rightarrow> (nat \<Rightarrow> ContainerID \<rightharpoonup> ContainerConfig) \<Rightarrow>
   bool \<Rightarrow> Metadata \<Rightarrow> string \<Rightarrow> RecurrentCommand \<Rightarrow> ContainerID \<Rightarrow>
   nat \<Rightarrow> nat \<Rightarrow> ContainerLimitation Future exec option \<times> event list" where
  "watch_loop runWithoutTimeout jsonToProtobuf infos_at isDebugMode metadata inputStringified
     command containerId n fuel =
    loop (\<lambda>k. watch_iterate (runWithoutTimeout k) isDebugMode metadata inputStringified command)
         (\<lambda>k. watch_body jsonToProtobuf command (infos_at k) containerId)
         n fuel"

text \<open>The \<^verbatim>\<open>onAny\<close> callback of the loop's future: it runs once the future is completed.\<close>

fun onAny :: "ContainerLimitation Future exec option \<Rightarrow> event list" where
  "onAny (Some (Done (Ready v))) =
     [LogWarning ''Terminating watch loop'', Terminate, LogWarning ''Watch loop Terminated'']"
| "onAny (Some (Done (Failed m))) =
     [LogWarning ''Terminating watch loop'', Terminate, LogWarning ''Watch loop Terminated'']"
| "onAny (Some (Done Discarded)) =
     [LogWarning ''Terminating watch loop'', Terminate, LogWarning ''Watch loop Terminated'']"
| "onAny (Some (Done (Pending d))) = []"
| "onAny (Some Abort) = []"
| "onAny None = []"

definition watch ::
  "stringifier \<Rightarrow> (nat \<Rightarrow> bool \<Rightarrow> Metadata \<Rightarrow> RecurrentCommand \<Rightarrow> string \<Rightarrow> string Try) \<Rightarrow>
   (string \<Rightarrow> ContainerLimitation Result) \<Rightarrow> (nat \<Rightarrow> ContainerID \<rightharpoonup> ContainerConfig) \<Rightarrow>
   nat \<Rightarrow> CommandIsolatorProcess \<Rightarrow> ContainerID \<Rightarrow>
   ContainerLimitation Future exec option \<times> event list" where
  "watch stringify runWithoutTimeout jsonToProtobuf infos_at fuel this containerId =
    (case m_watchCommand this of
       None \<Rightarrow> (Some (Done (Pending False)), [])
     | Some watchCommand \<Rightarrow>
         let metadata = (cid_value containerId, ''watch'')
         in case m_infos this containerId of
              None \<Rightarrow> (Some (Done (Failed NotInitialized)), [])
            | Some config \<Rightarrow>
                let inputsJson = (Map.empty(''container_id'' \<mapsto> protobuf_id containerId))
                                   (''container_config'' \<mapsto> protobuf_config config);
                    inputStringified = stringify inputsJson;
                    command = watchCommand;
                    isDebugMode = m_isDebugMode this;
                    r = watch_loop runWithoutTimeout jsonToProtobuf infos_at isDebugMode metadata
                          inputStringified command containerId 0 fuel
                in (fst r, Spawn # snd r @ onAny (fst r)))"

section \<open>Vocabulary of the statements\<close>

text \<open>
  The input document of a hook for a container that has a record: the identifier and the
  configuration, as \<^verbatim>\<open>prepare\<close>, \<^verbatim>\<open>watch\<close>, \<^verbatim>\<open>usage\<close> and \<^verbatim>\<open>cleanup\<close> build it.
\<close>

definition input_document :: "stringifier \<Rightarrow> ContainerID \<Rightarrow> ContainerConfig \<Rightarrow> string" where
  "input_document stringify containerId config =
     stringify ((Map.empty(''container_id'' \<mapsto> protobuf_id containerId))
                  (''container_config'' \<mapsto> protobuf_config config))"

text \<open>The input document of the cleanup hook: without the configuration when the record is missing.\<close>

definition cleanup_input :: "stringifier \<Rightarrow> CommandIsolatorProcess \<Rightarrow> ContainerID \<Rightarrow> string" where
  "cleanup_input stringify this containerId =
     (case m_infos this containerId of
        Some config \<Rightarrow> input_document stringify containerId config
      | None \<Rightarrow> stringify (Map.empty(''container_id'' \<mapsto> protobuf_id containerId)))"

text \<open>The input document of a hook invocation; \<open>None\<close> for an event that is none.\<close>

fun hook_input :: "event \<Rightarrow> string option" where
  "hook_input (Run d m c i) = Some i"
| "hook_input (RunWithoutTimeout d m c i) = Some i"
| "hook_input (AsyncRun d m c i) = Some i"
| "hook_input (Put k v) = None"
| "hook_input (Erase k) = None"
| "hook_input (LogWarning w) = None"
| "hook_input Spawn = None"
| "hook_input Terminate = None"
| "hook_input (After d) = None"

section \<open>Concrete inputs\<close>

definition c1 :: ContainerID where
  "c1 = ContainerID ''c1''"

definition config_a :: ContainerConfig where
  "config_a = ContainerConfig ''a''"

definition config_b :: ContainerConfig where
  "config_b = ContainerConfig ''b''"

definition hook :: "string \<Rightarrow> Command" where
  "hook path = \<lparr>cmd_line = path, cmd_timeout = 30\<rparr>"

definition watch_hook :: RecurrentCommand where
  "watch_hook = \<lparr>cmd_line = ''watch.sh'', cmd_timeout = 30, frequence = 5\<rparr>"

text \<open>A process with its four hooks configured, and one with none, over a given registry.\<close>

definition isolator :: "(ContainerID \<rightharpoonup> ContainerConfig) \<Rightarrow> CommandIsolatorProcess" where
  "isolator infos =
     \<lparr>m_prepareCommand = Some (hook ''prepare.sh''), m_watchCommand = Some watch_hook,
      m_cleanupCommand = Some (hook ''cleanup.sh''), m_usageCommand = Some (hook ''usage.sh''),
      m_isDebugMode = False, m_infos = infos\<rparr>"

definition unconfigured :: "(ContainerID \<rightharpoonup> ContainerConfig) \<Rightarrow> CommandIsolatorProcess" where
  "unconfigured infos =
     \<lparr>m_prepareCommand = None, m_watchCommand = None, m_cleanupCommand = None,
      m_usageCommand = None, m_isDebugMode = False, m_infos = infos\<rparr>"

text \<open>A serialiser that tells the documents of the examples apart.\<close>

definition show_object :: stringifier where
  "show_object obj =
     (case obj ''container_config'' of
        None \<Rightarrow> ''id''
      | Some (protobuf_id k) \<Rightarrow> ''id''
      | Some (protobuf_config (ContainerConfig c)) \<Rightarrow> ''id+config:'' @ c)"

definition failing :: runner where
  "failing isDebugMode metadata command input = Error ''exit status 1''"

definition answering :: "string \<Rightarrow> runner" where
  "answering out isDebugMode metadata command input = Value out"

definition undecodable :: "string \<Rightarrow> 'a Result" where
  "undecodable out = RError ''not JSON''"

text \<open>A watch hook that answers nothing at polls 0 and 1 and a limitation from poll 2 on.\<close>

definition polled ::
  "nat \<Rightarrow> bool \<Rightarrow> Metadata \<Rightarrow> RecurrentCommand \<Rightarrow> string \<Rightarrow> string Try" where
  "polled n isDebugMode metadata command input = (if n < 2 then Value [] else Value ''oom'')"

section \<open>Properties of prepare\<close>

text \<open>
  Claim C1. When the registry already holds a record for the identifier, \<^verbatim>\<open>prepare\<close>
  fails with the already-initialized message, leaves the process as it is and does
  nothing else. After any first \<^verbatim>\<open>prepare\<close> for the identifier, whatever its hook did
  and whatever it returned, the registry holds a record for it, so a second \<^verbatim>\<open>prepare\<close>
  fails in that way.
\<close>

theorem prepare_twice_AlreadyInitialized:
  "(containerId \<in> dom (m_infos this) \<longrightarrow>
      prepare stringify run jsonToProtobuf this containerId containerConfig =
        (Done (Failed AlreadyInitialized), this, []))
   \<and> (prepare stringify' run' jsonToProtobuf' before containerId config' =
         (result, afterwards, events) \<longrightarrow>
        containerId \<in> dom (m_infos afterwards) \<and>
        prepare stringify run jsonToProtobuf afterwards containerId containerConfig =
          (Done (Failed AlreadyInitialized), afterwards, []))"
proof -
  have second: "containerId \<in> dom (m_infos t) \<Longrightarrow>
      prepare stringify run jsonToProtobuf t containerId containerConfig =
        (Done (Failed AlreadyInitialized), t, [])" for t
    by (simp add: prepare_def)
  have kept: "containerId \<in> dom (m_infos afterwards)"
    if "prepare stringify' run' jsonToProtobuf' before containerId config' =
          (result, afterwards, events)"
    using that
    by (auto simp: prepare_def Let_def split: if_splits option.splits Try.splits Result.splits)
  show ?thesis using second kept by blast
qed

text \<open>
  The first \<^verbatim>\<open>prepare\<close> for \<open>c1\<close> fails in its hook, or returns what the hook
  answers; the second one finds the record either way.
\<close>

theorem prepare_twice_AlreadyInitialized_witness:
  "c1 \<in> dom (m_infos (isolator [c1 \<mapsto> config_a]))
   \<and> prepare show_object failing undecodable (isolator Map.empty) c1 config_a =
       (Done (Failed ''exit status 1''), isolator [c1 \<mapsto> config_a],
        [Put c1 config_a, Run False (''c1'', ''prepare'') (hook ''prepare.sh'') ''id+config:a''])
   \<and> prepare show_object (answering ''env'') (\<lambda>out. RSome (ContainerLaunchInfo out))
        (isolator [c1 \<mapsto> config_a]) c1 config_b =
       (Done (Failed AlreadyInitialized), isolator [c1 \<mapsto> config_a], [])"
  using
    prepare_twice_AlreadyInitialized
      [where containerId = c1 and this = "isolator [c1 \<mapsto> config_a]"
         and stringify = show_object and run = "answering ''env''"
         and jsonToProtobuf = "\<lambda>out. RSome (ContainerLaunchInfo out)"
         and containerConfig = config_b
         and stringify' = show_object and run' = failing and jsonToProtobuf' = undecodable
         and before = "isolator Map.empty" and config' = config_a
         and result = "Done (Failed ''exit status 1'')"
         and afterwards = "isolator [c1 \<mapsto> config_a]"
         and events = "[Put c1 config_a,
                        Run False (''c1'', ''prepare'') (hook ''prepare.sh'') ''id+config:a'']"]
  by (simp add: prepare_def isolator_def failing_def show_object_def c1_def config_a_def Let_def)

text \<open>
  Claim C2. For an identifier without a record, \<^verbatim>\<open>prepare\<close> returns the process with the
  record inserted, whatever the hook does: nothing removes it again. The insertion is the
  first thing it does, before the hook is run. When the hook's execution fails, or its
  non-empty output does not decode, the result is a failure.
\<close>

theorem prepare_inserts_before_hook:
  assumes "m_infos this containerId = None"
  shows "fst (snd (prepare stringify run jsonToProtobuf this containerId containerConfig)) =
           this\<lparr>m_infos := (m_infos this)(containerId \<mapsto> containerConfig)\<rparr>
       \<and> (m_prepareCommand this = None \<longrightarrow>
            snd (snd (prepare stringify run jsonToProtobuf this containerId containerConfig)) =
              [Put containerId containerConfig])
       \<and> (m_prepareCommand this = Some cmd \<longrightarrow>
            snd (snd (prepare stringify run jsonToProtobuf this containerId containerConfig)) =
              [Put containerId containerConfig,
               Run (m_isDebugMode this) (cid_value containerId, ''prepare'') cmd
                 (input_document stringify containerId containerConfig)])
       \<and> (m_prepareCommand this = Some cmd \<and>
          run (m_isDebugMode this) (cid_value containerId, ''prepare'') cmd
            (input_document stringify containerId containerConfig) = Error e \<longrightarrow>
            fst (prepare stringify run jsonToProtobuf this containerId containerConfig) =
              Done (Failed e))
       \<and> (m_prepareCommand this = Some cmd \<and>
          run (m_isDebugMode this) (cid_value containerId, ''prepare'') cmd
            (input_document stringify containerId containerConfig) = Value out \<and>
          out \<noteq> [] \<and> jsonToProtobuf out = RError e \<longrightarrow>
            fst (prepare stringify run jsonToProtobuf this containerId containerConfig) =
              Done (Failed (''Unable to deserialize ContainerLaunchInfo: '' @ e)))"
  using assms
  by (auto simp: prepare_def input_document_def Let_def domIff
           split: option.splits Try.splits Result.splits)

text \<open>
  The hook fails, or answers what does not decode, and the record of \<open>c1\<close> is kept;
  without a prepare hook the record is inserted and nothing is run.
\<close>

theorem prepare_inserts_before_hook_witness:
  "m_infos (isolator Map.empty) c1 = None
   \<and> m_prepareCommand (isolator Map.empty) = Some (hook ''prepare.sh'')
   \<and> failing False (''c1'', ''prepare'') (hook ''prepare.sh'')
        (input_document show_object c1 config_a) = Error ''exit status 1''
   \<and> prepare show_object failing undecodable (isolator Map.empty) c1 config_a =
       (Done (Failed ''exit status 1''), isolator [c1 \<mapsto> config_a],
        [Put c1 config_a, Run False (''c1'', ''prepare'') (hook ''prepare.sh'') ''id+config:a''])
   \<and> answering ''junk'' False (''c1'', ''prepare'') (hook ''prepare.sh'')
        (input_document show_object c1 config_a) = Value ''junk''
   \<and> (undecodable ''junk'' :: ContainerLaunchInfo Result) = RError ''not JSON''
   \<and> prepare show_object (answering ''junk'') undecodable (isolator Map.empty) c1 config_a =
       (Done (Failed ''Unable to deserialize ContainerLaunchInfo: not JSON''),
        isolator [c1 \<mapsto> config_a],
        [Put c1 config_a, Run False (''c1'', ''prepare'') (hook ''prepare.sh'') ''id+config:a''])
   \<and> m_infos (unconfigured Map.empty) c1 = None
   \<and> m_prepareCommand (unconfigured Map.empty) = None
   \<and> prepare show_object failing undecodable (unconfigured Map.empty) c1 config_a =
       (Done (Ready None), unconfigured [c1 \<mapsto> config_a], [Put c1 config_a])"
  using
    prepare_inserts_before_hook
      [where this = "isolator Map.empty" and containerId = c1 and stringify = show_object
         and run = failing and jsonToProtobuf = undecodable and containerConfig = config_a
         and cmd = "hook ''prepare.sh''" and e = "''exit status 1''"]
    prepare_inserts_before_hook
      [where this = "isolator Map.empty" and containerId = c1 and stringify = show_object
         and run = "answering ''junk''" and jsonToProtobuf = undecodable
         and containerConfig = config_a and cmd = "hook ''prepare.sh''" and out = "''junk''"
         and e = "''not JSON''"]
    prepare_inserts_before_hook
      [where this = "unconfigured Map.empty" and containerId = c1 and stringify = show_object
         and run = failing and jsonToProtobuf = undecodable and containerConfig = config_a]
  by (simp add: prepare_def isolator_def unconfigured_def failing_def answering_def
        undecodable_def show_object_def input_document_def c1_def config_a_def Let_def)

section \<open>Properties of cleanup\<close>

lemma cleanup_state:
  "fst (snd (cleanup stringify run this containerId)) =
     this\<lparr>m_infos := (m_infos this)(containerId := None)\<rparr>"
  by (simp add: cleanup_def Let_def split: option.splits Try.splits prod.splits)

lemma prepare_fresh_state:
  "m_infos t containerId = None \<Longrightarrow>
   fst (snd (prepare stringify run jsonToProtobuf t containerId containerConfig)) =
     t\<lparr>m_infos := (m_infos t)(containerId \<mapsto> containerConfig)\<rparr>"
  by (simp add: prepare_def Let_def domIff split: option.splits Try.splits Result.splits)

lemma prepare_fresh_failure:
  "m_infos t containerId = None \<Longrightarrow>
   fst (prepare stringify run jsonToProtobuf t containerId containerConfig) = Done (Failed m) \<Longrightarrow>
   \<exists>cmd. m_prepareCommand t = Some cmd \<and>
     (run (m_isDebugMode t) (cid_value containerId, ''prepare'') cmd
        (input_document stringify containerId containerConfig) = Error m
      \<or> (\<exists>out e. run (m_isDebugMode t) (cid_value containerId, ''prepare'') cmd
            (input_document stringify containerId containerConfig) = Value out \<and> out \<noteq> [] \<and>
          jsonToProtobuf out = RError e \<and>
          m = ''Unable to deserialize ContainerLaunchInfo: '' @ e))"
  by (auto simp: prepare_def Let_def domIff input_document_def
           split: option.splits Try.splits Result.splits if_splits)

text \<open>
  Claim C3. \<^verbatim>\<open>cleanup\<close> returns the process without a record for the identifier in every
  case: with no cleanup command, it erases the record and succeeds; with a command whose
  execution fails, it returns the failure together with the registry from which the
  record is erased, the erasure following the hook; with a command that runs, it
  succeeds. A \<^verbatim>\<open>prepare\<close> for the same identifier that follows registers the new
  configuration; it returns no adjustment when no prepare command is configured, and it
  fails only when its own hook's execution or decoding fails.
\<close>

theorem cleanup_removes_record:
  "m_infos (fst (snd (cleanup stringify run this containerId))) containerId = None
   \<and> (m_cleanupCommand this = None \<longrightarrow>
        cleanup stringify run this containerId =
          (Ready (), this\<lparr>m_infos := (m_infos this)(containerId := None)\<rparr>, [Erase containerId]))
   \<and> (m_cleanupCommand this = Some cmd \<and>
      run (m_isDebugMode this) (cid_value containerId, ''cleanup'') cmd
        (cleanup_input stringify this containerId) = Error e \<longrightarrow>
        fst (cleanup stringify run this containerId) = Failed e \<and>
        fst (snd (cleanup stringify run this containerId)) =
          this\<lparr>m_infos := (m_infos this)(containerId := None)\<rparr> \<and>
        (\<exists>ev. snd (snd (cleanup stringify run this containerId)) =
           ev @ [Run (m_isDebugMode this) (cid_value containerId, ''cleanup'') cmd
                   (cleanup_input stringify this containerId),
                 Erase containerId]))
   \<and> (m_cleanupCommand this = Some cmd \<and>
      run (m_isDebugMode this) (cid_value containerId, ''cleanup'') cmd
        (cleanup_input stringify this containerId) = Value out \<longrightarrow>
        fst (cleanup stringify run this containerId) = Ready ())
   \<and> m_infos (fst (snd (prepare stringify' run' jsonToProtobuf
          (fst (snd (cleanup stringify run this containerId))) containerId containerConfig)))
        containerId = Some containerConfig
   \<and> (m_prepareCommand this = None \<longrightarrow>
        fst (prepare stringify' run' jsonToProtobuf
          (fst (snd (cleanup stringify run this containerId))) containerId containerConfig) =
        Done (Ready None))
   \<and> (fst (prepare stringify' run' jsonToProtobuf
          (fst (snd (cleanup stringify run this containerId))) containerId containerConfig) =
        Done (Failed m) \<longrightarrow>
      (\<exists>pcmd. m_prepareCommand this = Some pcmd \<and>
        (run' (m_isDebugMode this) (cid_value containerId, ''prepare'') pcmd
           (input_document stringify' containerId containerConfig) = Error m
         \<or> (\<exists>out e. run' (m_isDebugMode this) (cid_value containerId, ''prepare'') pcmd
              (input_document stringify' containerId containerConfig) = Value out \<and> out \<noteq> [] \<and>
             jsonToProtobuf out = RError e \<and>
             m = ''Unable to deserialize ContainerLaunchInfo: '' @ e))))"
proof -
  let ?t = "fst (snd (cleanup stringify run this containerId))"
  have st: "?t = this\<lparr>m_infos := (m_infos this)(containerId := None)\<rparr>"
    by (rule cleanup_state)
  have gone: "m_infos ?t containerId = None"
    by (simp add: st)
  have unconfigured: "m_cleanupCommand this = None \<longrightarrow>
        cleanup stringify run this containerId =
          (Ready (), this\<lparr>m_infos := (m_infos this)(containerId := None)\<rparr>, [Erase containerId])"
    by (simp add: cleanup_def)
  have failed: "m_cleanupCommand this = Some cmd \<and>
      run (m_isDebugMode this) (cid_value containerId, ''cleanup'') cmd
        (cleanup_input stringify this containerId) = Error e \<longrightarrow>
        fst (cleanup stringify run this containerId) = Failed e \<and>
        ?t = this\<lparr>m_infos := (m_infos this)(containerId := None)\<rparr> \<and>
        (\<exists>ev. snd (snd (cleanup stringify run this containerId)) =
           ev @ [Run (m_isDebugMode this) (cid_value containerId, ''cleanup'') cmd
                   (cleanup_input stringify this containerId),
                 Erase containerId])"
    by (cases "m_infos this containerId")
       (simp_all add: cleanup_def cleanup_input_def input_document_def Let_def)
  have succeeded: "m_cleanupCommand this = Some cmd \<and>
      run (m_isDebugMode this) (cid_value containerId, ''cleanup'') cmd
        (cleanup_input stringify this containerId) = Value out \<longrightarrow>
        fst (cleanup stringify run this containerId) = Ready ()"
    by (cases "m_infos this containerId")
       (simp_all add: cleanup_def cleanup_input_def input_document_def Let_def)
  have again: "m_infos (fst (snd (prepare stringify' run' jsonToProtobuf ?t containerId
      containerConfig))) containerId = Some containerConfig"
    by (simp add: prepare_fresh_state [OF gone])
  have no_hook: "m_prepareCommand this = None \<longrightarrow>
        fst (prepare stringify' run' jsonToProtobuf ?t containerId containerConfig) =
        Done (Ready None)"
    by (simp add: st prepare_def Let_def domIff)
  have only_hook: "fst (prepare stringify' run' jsonToProtobuf ?t containerId containerConfig) =
        Done (Failed m) \<longrightarrow>
      (\<exists>pcmd. m_prepareCommand this = Some pcmd \<and>
        (run' (m_isDebugMode this) (cid_value containerId, ''prepare'') pcmd
           (input_document stringify' containerId containerConfig) = Error m
         \<or> (\<exists>out e. run' (m_isDebugMode this) (cid_value containerId, ''prepare'') pcmd
              (input_document stringify' containerId containerConfig) = Value out \<and> out \<noteq> [] \<and>
             jsonToProtobuf out = RError e \<and>
             m = ''Unable to deserialize ContainerLaunchInfo: '' @ e)))"
    using prepare_fresh_failure [OF gone, of stringify' run' jsonToProtobuf containerConfig m]
    by (simp add: st)
  show ?thesis
    using gone unconfigured failed succeeded again no_hook only_hook by (intro conjI)
qed

text \<open>
  The record of \<open>c1\<close> is removed without a cleanup command, with one that fails and
  with one that runs, and \<open>c1\<close> is then prepared again.
\<close>

theorem cleanup_removes_record_witness:
  "m_cleanupCommand (unconfigured [c1 \<mapsto> config_a]) = None
   \<and> cleanup show_object failing (unconfigured [c1 \<mapsto> config_a]) c1 =
       (Ready (), unconfigured Map.empty, [Erase c1])
   \<and> prepare show_object failing undecodable (unconfigured Map.empty) c1 config_b =
       (Done (Ready None), unconfigured [c1 \<mapsto> config_b], [Put c1 config_b])
   \<and> m_cleanupCommand (isolator [c1 \<mapsto> config_a]) = Some (hook ''cleanup.sh'')
   \<and> failing False (''c1'', ''cleanup'') (hook ''cleanup.sh'')
        (cleanup_input show_object (isolator [c1 \<mapsto> config_a]) c1) = Error ''exit status 1''
   \<and> cleanup show_object failing (isolator [c1 \<mapsto> config_a]) c1 =
       (Failed ''exit status 1'', isolator Map.empty,
        [Run False (''c1'', ''cleanup'') (hook ''cleanup.sh'') ''id+config:a'', Erase c1])
   \<and> prepare show_object (answering ''env'') (\<lambda>out. RSome (ContainerLaunchInfo out))
        (isolator Map.empty) c1 config_b =
       (Done (Ready (Some (ContainerLaunchInfo ''env''))), isolator [c1 \<mapsto> config_b],
        [Put c1 config_b, Run False (''c1'', ''prepare'') (hook ''prepare.sh'') ''id+config:b''])
   \<and> answering ''done'' False (''c1'', ''cleanup'') (hook ''cleanup.sh'')
        (cleanup_input show_object (isolator [c1 \<mapsto> config_a]) c1) = Value ''done''
   \<and> cleanup show_object (answering ''done'') (isolator [c1 \<mapsto> config_a]) c1 =
       (Ready (), isolator Map.empty,
        [Run False (''c1'', ''cleanup'') (hook ''cleanup.sh'') ''id+config:a'', Erase c1])
   \<and> fst (prepare show_object failing undecodable (isolator Map.empty) c1 config_b) =
       Done (Failed ''exit status 1'')
   \<and> failing False (''c1'', ''prepare'') (hook ''prepare.sh'')
        (input_document show_object c1 config_b) = Error ''exit status 1''"
  using
    cleanup_removes_record
      [where this = "unconfigured [c1 \<mapsto> config_a]" and containerId = c1
         and stringify = show_object and run = failing and stringify' = show_object
         and run' = failing and jsonToProtobuf = undecodable and containerConfig = config_b]
    cleanup_removes_record
      [where this = "isolator [c1 \<mapsto> config_a]" and containerId = c1
         and stringify = show_object and run = failing and cmd = "hook ''cleanup.sh''"
         and e = "''exit status 1''" and stringify' = show_object
         and run' = "answering ''env''"
         and jsonToProtobuf = "\<lambda>out. RSome (ContainerLaunchInfo out)"
         and containerConfig = config_b]
    cleanup_removes_record
      [where this = "isolator [c1 \<mapsto> config_a]" and containerId = c1
         and stringify = show_object and run = "answering ''done''"
         and cmd = "hook ''cleanup.sh''" and out = "''done''" and stringify' = show_object
         and run' = failing and jsonToProtobuf = undecodable and containerConfig = config_b
         and m = "''exit status 1''"]
  by (simp add: cleanup_def prepare_def isolator_def unconfigured_def failing_def answering_def
        undecodable_def show_object_def input_document_def cleanup_input_def c1_def config_a_def
        config_b_def Let_def)

section \<open>Properties of usage\<close>

text \<open>
  Claim C6. With a usage command configured and a record for the identifier, \<^verbatim>\<open>usage\<close>
  returns the default snapshot, stamped with the time read on entry, when the hook's
  execution fails (as an error value, a failed future or a discarded one), when its
  output is empty, and when its output does not decode; it returns no failure. Whatever
  the process and the identifier, a failure of \<^verbatim>\<open>usage\<close> is the not-initialized one,
  with a usage command configured and no record.
\<close>

theorem usage_recovers_to_emptyStats:
  assumes "m_usageCommand this = Some cmd" and "m_infos this containerId = Some config"
  shows "(asyncRun (m_isDebugMode this) (cid_value containerId, ''usage'') cmd
            (input_document stringify containerId config) = Ready (Error e) \<longrightarrow>
          fst (usage stringify asyncRun jsonToProtobuf now this containerId) =
            Done (Ready (emptyStats now)))
       \<and> (asyncRun (m_isDebugMode this) (cid_value containerId, ''usage'') cmd
            (input_document stringify containerId config) = Failed e \<longrightarrow>
          fst (usage stringify asyncRun jsonToProtobuf now this containerId) =
            Done (Ready (emptyStats now)))
       \<and> (asyncRun (m_isDebugMode this) (cid_value containerId, ''usage'') cmd
            (input_document stringify containerId config) = Discarded \<longrightarrow>
          fst (usage stringify asyncRun jsonToProtobuf now this containerId) =
            Done (Ready (emptyStats now)))
       \<and> (asyncRun (m_isDebugMode this) (cid_value containerId, ''usage'') cmd
            (input_document stringify containerId config) = Ready (Value []) \<longrightarrow>
          fst (usage stringify asyncRun jsonToProtobuf now this containerId) =
            Done (Ready (emptyStats now)))
       \<and> (asyncRun (m_isDebugMode this) (cid_value containerId, ''usage'') cmd
            (input_document stringify containerId config) = Ready (Value out) \<and>
          out \<noteq> [] \<and> jsonToProtobuf out = RError e \<longrightarrow>
          fst (usage stringify asyncRun jsonToProtobuf now this containerId) =
            Done (Ready (emptyStats now)))
       \<and> timestamp (emptyStats now) = now \<and> other_fields (emptyStats now) = []
       \<and> fst (usage stringify asyncRun jsonToProtobuf now this containerId) \<noteq> Done (Failed m)
       \<and> (fst (usage stringify asyncRun jsonToProtobuf now other containerId') = Done (Failed m) \<longrightarrow>
            m = NotInitialized \<and> m_usageCommand other \<noteq> None \<and> m_infos other containerId' = None)"
proof -
  let ?f = "asyncRun (m_isDebugMode this) (cid_value containerId, ''usage'') cmd
            (input_document stringify containerId config)"
  have u: "fst (usage stringify asyncRun jsonToProtobuf now this containerId) =
     fst (recover (future_then ?f (usage_then jsonToProtobuf now)) (usage_recover now))"
    using assms by (simp add: usage_def Let_def input_document_def)
  have nofail: "fst (recover (future_then f (usage_then jsonToProtobuf now)) (usage_recover now))
      \<noteq> Done (Failed m)" for f :: "string Try Future"
    by (cases f)
       (auto simp: usage_then_def usage_recover_def split: Try.splits Result.splits)
  have only: "fst (usage stringify asyncRun jsonToProtobuf now other containerId') = Done (Failed m) \<longrightarrow>
            m = NotInitialized \<and> m_usageCommand other \<noteq> None \<and> m_infos other containerId' = None"
    using nofail by (auto simp: usage_def Let_def split: option.splits)
  show ?thesis
    using only nofail by (auto simp: u usage_then_def usage_recover_def emptyStats_def)
qed

text \<open>
  The five ways in which the usage hook of \<open>c1\<close> gives nothing usable, at time
  \<open>5\<close>, and the failure without a record.
\<close>

theorem usage_recovers_to_emptyStats_witness:
  "m_usageCommand (isolator [c1 \<mapsto> config_a]) = Some (hook ''usage.sh'')
   \<and> m_infos (isolator [c1 \<mapsto> config_a]) c1 = Some config_a
   \<and> usage show_object (\<lambda>d m c i. Ready (Error ''exit status 1'')) undecodable 5
        (isolator [c1 \<mapsto> config_a]) c1 =
       (Done (Ready (emptyStats 5)),
        [AsyncRun False (''c1'', ''usage'') (hook ''usage.sh'') ''id+config:a'',
         LogWarning ''Unable to parse output: exit status 1''])
   \<and> usage show_object (\<lambda>d m c i. Failed ''killed'') undecodable 5
        (isolator [c1 \<mapsto> config_a]) c1 =
       (Done (Ready (emptyStats 5)),
        [AsyncRun False (''c1'', ''usage'') (hook ''usage.sh'') ''id+config:a'',
         LogWarning ''Failed to run usage command: ''])
   \<and> usage show_object (\<lambda>d m c i. Discarded) undecodable 5
        (isolator [c1 \<mapsto> config_a]) c1 =
       (Done (Ready (emptyStats 5)),
        [AsyncRun False (''c1'', ''usage'') (hook ''usage.sh'') ''id+config:a'',
         LogWarning ''Failed to run usage command: ''])
   \<and> usage show_object (\<lambda>d m c i. Ready (Value [])) undecodable 5
        (isolator [c1 \<mapsto> config_a]) c1 =
       (Done (Ready (emptyStats 5)),
        [AsyncRun False (''c1'', ''usage'') (hook ''usage.sh'') ''id+config:a'',
         LogWarning ''Output is empty''])
   \<and> (undecodable ''junk'' :: ResourceStatistics Result) = RError ''not JSON''
   \<and> usage show_object (\<lambda>d m c i. Ready (Value ''junk'')) undecodable 5
        (isolator [c1 \<mapsto> config_a]) c1 =
       (Done (Ready (emptyStats 5)),
        [AsyncRun False (''c1'', ''usage'') (hook ''usage.sh'') ''id+config:a'',
         LogWarning ''Unable to deserialize ResourceStatistics: not JSON''])
   \<and> timestamp (emptyStats 5) = 5
   \<and> usage show_object (\<lambda>d m c i. Failed ''killed'') undecodable 5 (isolator Map.empty) c1 =
       (Done (Failed NotInitialized), [])
   \<and> m_usageCommand (isolator Map.empty) = Some (hook ''usage.sh'')
   \<and> m_infos (isolator Map.empty) c1 = None"
  using
    usage_recovers_to_emptyStats
      [where this = "isolator [c1 \<mapsto> config_a]" and containerId = c1 and config = config_a
         and cmd = "hook ''usage.sh''" and stringify = show_object
         and asyncRun = "\<lambda>d m c i. Ready (Error ''exit status 1'')"
         and e = "''exit status 1''" and jsonToProtobuf = undecodable and now = 5
         and other = "isolator Map.empty" and containerId' = c1 and m = NotInitialized]
    usage_recovers_to_emptyStats
      [where this = "isolator [c1 \<mapsto> config_a]" and containerId = c1 and config = config_a
         and cmd = "hook ''usage.sh''" and stringify = show_object
         and asyncRun = "\<lambda>d m c i. Failed ''killed''"
         and e = "''killed''" and jsonToProtobuf = undecodable and now = 5
         and other = "isolator Map.empty" and containerId' = c1 and m = NotInitialized]
    usage_recovers_to_emptyStats
      [where this = "isolator [c1 \<mapsto> config_a]" and containerId = c1 and config = config_a
         and cmd = "hook ''usage.sh''" and stringify = show_object
         and asyncRun = "\<lambda>d m c i. Discarded"
         and jsonToProtobuf = undecodable and now = 5
         and other = "isolator Map.empty" and containerId' = c1 and m = NotInitialized]
    usage_recovers_to_emptyStats
      [where this = "isolator [c1 \<mapsto> config_a]" and containerId = c1 and config = config_a
         and cmd = "hook ''usage.sh''" and stringify = show_object
         and asyncRun = "\<lambda>d m c i. Ready (Value [])"
         and jsonToProtobuf = undecodable and now = 5
         and other = "isolator Map.empty" and containerId' = c1 and m = NotInitialized]
    usage_recovers_to_emptyStats
      [where this = "isolator [c1 \<mapsto> config_a]" and containerId = c1 and config = config_a
         and cmd = "hook ''usage.sh''" and stringify = show_object
         and asyncRun = "\<lambda>d m c i. Ready (Value ''junk'')" and out = "''junk''"
         and e = "''not JSON''" and jsonToProtobuf = undecodable and now = 5
         and other = "isolator Map.empty" and containerId' = c1 and m = NotInitialized]
  by (simp add: usage_def usage_then_def usage_recover_def isolator_def undecodable_def
        show_object_def input_document_def emptyStats_def c1_def config_a_def Let_def)

text \<open>
  Claim C9. Without a usage command, \<^verbatim>\<open>usage\<close> returns the default snapshot, stamped
  with the time read on entry, and runs nothing, whether the registry holds a record for
  the identifier or not: the registry is not consulted, and the result is not the
  not-initialized failure.
\<close>

theorem usage_unconfigured_ignores_registry:
  assumes "m_usageCommand this = None"
  shows "usage stringify asyncRun jsonToProtobuf now this containerId =
           (Done (Ready (emptyStats now)), [])
       \<and> fst (usage stringify asyncRun jsonToProtobuf now this containerId) \<noteq>
           Done (Failed NotInitialized)
       \<and> timestamp (emptyStats now) = now"
  using assms by (simp add: usage_def emptyStats_def)

text \<open>Without hooks, \<open>c1\<close> gets the default snapshot with and without a record.\<close>

theorem usage_unconfigured_ignores_registry_witness:
  "m_usageCommand (unconfigured Map.empty) = None
   \<and> m_infos (unconfigured Map.empty) c1 = None
   \<and> usage show_object (\<lambda>d m c i. Failed ''killed'') undecodable 5 (unconfigured Map.empty) c1 =
       (Done (Ready (emptyStats 5)), [])
   \<and> usage show_object (\<lambda>d m c i. Failed ''killed'') undecodable 5
        (unconfigured [c1 \<mapsto> config_a]) c1 =
       (Done (Ready (emptyStats 5)), [])
   \<and> timestamp (emptyStats 5) = 5"
  using
    usage_unconfigured_ignores_registry
      [where this = "unconfigured Map.empty" and containerId = c1 and stringify = show_object
         and asyncRun = "\<lambda>d m c i. Failed ''killed''" and jsonToProtobuf = undecodable
         and now = 5]
    usage_unconfigured_ignores_registry
      [where this = "unconfigured [c1 \<mapsto> config_a]" and containerId = c1
         and stringify = show_object
         and asyncRun = "\<lambda>d m c i. Failed ''killed''" and jsonToProtobuf = undecodable
         and now = 5]
  by (simp add: unconfigured_def emptyStats_def)

section \<open>Properties of watch\<close>

text \<open>
  Claim C7. With a watch command configured and no record for the identifier,
  \<^verbatim>\<open>watch\<close> returns the not-initialized failure and does nothing: no process is spawned
  for a loop and no hook is run, however long it is observed.
\<close>

theorem watch_without_record_NotInitialized:
  assumes "m_watchCommand this = Some cmd" and "m_infos this containerId = None"
  shows "watch stringify runWithoutTimeout jsonToProtobuf infos_at fuel this containerId =
           (Some (Done (Failed NotInitialized)), [])"
  using assms by (simp add: watch_def)

theorem watch_without_record_NotInitialized_witness:
  "m_watchCommand (isolator Map.empty) = Some watch_hook
   \<and> m_infos (isolator Map.empty) c1 = None
   \<and> watch show_object polled (\<lambda>out. RSome (ContainerLimitation out)) (\<lambda>n. Map.empty) 3
        (isolator Map.empty) c1 =
       (Some (Done (Failed NotInitialized)), [])"
  using
    watch_without_record_NotInitialized
      [where this = "isolator Map.empty" and cmd = watch_hook and containerId = c1
         and stringify = show_object and runWithoutTimeout = polled
         and jsonToProtobuf = "\<lambda>out. RSome (ContainerLimitation out)"
         and infos_at = "\<lambda>n. Map.empty" and fuel = 3]
  by (simp add: isolator_def)

text \<open>
  Claim C8. Without a watch command, \<^verbatim>\<open>watch\<close> returns a pending future, with no loop
  behind it and no event at all, whatever the registry, the executor and the time of
  observation: a future that nothing completes, and no hook invocation.
\<close>

theorem watch_unconfigured_never_resolves:
  assumes "m_watchCommand this = None"
  shows "watch stringify runWithoutTimeout jsonToProtobuf infos_at fuel this containerId =
           (Some (Done (Pending False)), [])"
  using assms by (simp add: watch_def)

theorem watch_unconfigured_never_resolves_witness:
  "m_watchCommand (unconfigured [c1 \<mapsto> config_a]) = None
   \<and> watch show_object polled (\<lambda>out. RSome (ContainerLimitation out))
        (\<lambda>n. [c1 \<mapsto> config_a]) 3 (unconfigured [c1 \<mapsto> config_a]) c1 =
       (Some (Done (Pending False)), [])"
  using
    watch_unconfigured_never_resolves
      [where this = "unconfigured [c1 \<mapsto> config_a]" and containerId = c1
         and stringify = show_object and runWithoutTimeout = polled
         and jsonToProtobuf = "\<lambda>out. RSome (ContainerLimitation out)"
         and infos_at = "\<lambda>n. [c1 \<mapsto> config_a]" and fuel = 3]
  by (simp add: unconfigured_def)

lemma loop_split:
  "fst (loop iterate body n j) = None \<Longrightarrow>
   loop iterate body n (j + fuel) =
     (fst (loop iterate body (n + j) fuel),
      snd (loop iterate body n j) @ snd (loop iterate body (n + j) fuel))"
proof (induction j arbitrary: n)
  case 0
  then show ?case by simp
next
  case (Suc j)
  show ?case
  proof (cases "loop_flow (fst (body n (fst (iterate n))))")
    case None
    from Suc.prems None have "fst (loop iterate body (Suc n) j) = None"
      by (simp add: Let_def)
    from Suc.IH [OF this] None show ?thesis
      by (simp add: Let_def)
  next
    case (Some future)
    with Suc.prems show ?thesis
      by (simp add: Let_def)
  qed
qed

lemma watch_loop_absent:
  assumes "\<not> containerId \<in> dom (infos_at n)"
  shows "watch_loop runWithoutTimeout jsonToProtobuf infos_at isDebugMode metadata
           inputStringified command containerId n (Suc fuel) =
         (Some (Done (Pending False)),
          [RunWithoutTimeout isDebugMode metadata command inputStringified,
           LogWarning (''Terminating watch loop for containerId: '' @ cid_value containerId)])"
  using assms
  by (simp add: watch_loop_def watch_iterate_def watch_body_def watch_try_def Let_def)

text \<open>
  Claim C4. Take a watch loop that is still polling after \<open>n\<close> polls, and let the record
  be absent when the body of the next poll runs. Then the loop has stopped after that
  poll, for every longer observation: its future is left pending (no limitation, no
  failure), and beyond what it did in the first \<open>n\<close> polls it has run the hook of that
  poll, logged the warning, and nothing else; the \<^verbatim>\<open>onAny\<close> callback has not run. The
  body decides this before it looks at the output: whatever the hook answered, the
  \<^verbatim>\<open>try\<close> block returns the discarded pending future.
\<close>

theorem watch_stops_on_removed_record:
  assumes "m_watchCommand this = Some cmd" and "m_infos this containerId = Some config"
    and "fst (watch stringify runWithoutTimeout jsonToProtobuf infos_at n this containerId) = None"
    and "\<not> containerId \<in> dom (infos_at n)"
  shows "watch stringify runWithoutTimeout jsonToProtobuf infos_at (n + Suc fuel) this containerId =
           (Some (Done (Pending False)),
            snd (watch stringify runWithoutTimeout jsonToProtobuf infos_at n this containerId) @
            [RunWithoutTimeout (m_isDebugMode this) (cid_value containerId, ''watch'') cmd
               (input_document stringify containerId config),
             LogWarning (''Terminating watch loop for containerId: '' @ cid_value containerId)])
       \<and> watch_try jsonToProtobuf (infos_at n) containerId answer =
           Inr (Done (Pending True),
                [LogWarning (''Terminating watch loop for containerId: '' @ cid_value containerId)])"
proof -
  let ?input = "input_document stringify containerId config"
  let ?meta = "(cid_value containerId, ''watch'')"
  let ?loop = "watch_loop runWithoutTimeout jsonToProtobuf infos_at (m_isDebugMode this) ?meta
                 ?input cmd containerId"
  have w: "watch stringify runWithoutTimeout jsonToProtobuf infos_at k this containerId =
             (fst (?loop 0 k), Spawn # snd (?loop 0 k) @ onAny (fst (?loop 0 k)))" for k
    using assms(1,2) by (simp add: watch_def Let_def input_document_def)
  have running: "fst (?loop 0 n) = None"
    using assms(3) by (simp add: w)
  have split: "?loop 0 (n + Suc fuel) =
      (fst (?loop (0 + n) (Suc fuel)), snd (?loop 0 n) @ snd (?loop (0 + n) (Suc fuel)))"
    unfolding watch_loop_def using running [unfolded watch_loop_def] by (rule loop_split)
  have last: "?loop n (Suc fuel) =
      (Some (Done (Pending False)),
       [RunWithoutTimeout (m_isDebugMode this) ?meta cmd ?input,
        LogWarning (''Terminating watch loop for containerId: '' @ cid_value containerId)])"
    using assms(4) by (rule watch_loop_absent)
  have whole: "?loop 0 (n + Suc fuel) =
      (Some (Done (Pending False)),
       snd (?loop 0 n) @
       [RunWithoutTimeout (m_isDebugMode this) ?meta cmd ?input,
        LogWarning (''Terminating watch loop for containerId: '' @ cid_value containerId)])"
    using split last by simp
  have observed: "watch_try jsonToProtobuf (infos_at n) containerId answer =
           Inr (Done (Pending True),
                [LogWarning (''Terminating watch loop for containerId: '' @ cid_value containerId)])"
    using assms(4) by (simp add: watch_try_def)
  have "watch stringify runWithoutTimeout jsonToProtobuf infos_at (n + Suc fuel) this containerId =
           (Some (Done (Pending False)),
            snd (watch stringify runWithoutTimeout jsonToProtobuf infos_at n this containerId) @
            [RunWithoutTimeout (m_isDebugMode this) ?meta cmd ?input,
             LogWarning (''Terminating watch loop for containerId: '' @ cid_value containerId)])"
    by (simp add: w [of "n + Suc fuel"] w [of n] whole running del: add_Suc_right)
  with observed show ?thesis by simp
qed

text \<open>
  \<open>c1\<close> is cleaned up after two polls; the third poll's hook answers a limitation,
  which the loop does not report.
\<close>

theorem watch_stops_on_removed_record_witness:
  "m_watchCommand (isolator [c1 \<mapsto> config_a]) = Some watch_hook
   \<and> m_infos (isolator [c1 \<mapsto> config_a]) c1 = Some config_a
   \<and> watch show_object polled (\<lambda>out. RSome (ContainerLimitation out))
        (\<lambda>n. if n < 2 then [c1 \<mapsto> config_a]
              else m_infos (fst (snd (cleanup show_object failing (isolator [c1 \<mapsto> config_a]) c1))))
        2 (isolator [c1 \<mapsto> config_a]) c1 =
       (None,
        [Spawn,
         RunWithoutTimeout False (''c1'', ''watch'') watch_hook ''id+config:a'', After 5,
         RunWithoutTimeout False (''c1'', ''watch'') watch_hook ''id+config:a'', After 5])
   \<and> \<not> c1 \<in> dom (m_infos (fst (snd (cleanup show_object failing
                                         (isolator [c1 \<mapsto> config_a]) c1))))
   \<and> watch show_object polled (\<lambda>out. RSome (ContainerLimitation out))
        (\<lambda>n. if n < 2 then [c1 \<mapsto> config_a]
              else m_infos (fst (snd (cleanup show_object failing (isolator [c1 \<mapsto> config_a]) c1))))
        3 (isolator [c1 \<mapsto> config_a]) c1 =
       (Some (Done (Pending False)),
        [Spawn,
         RunWithoutTimeout False (''c1'', ''watch'') watch_hook ''id+config:a'', After 5,
         RunWithoutTimeout False (''c1'', ''watch'') watch_hook ''id+config:a'', After 5,
         RunWithoutTimeout False (''c1'', ''watch'') watch_hook ''id+config:a'',
         LogWarning ''Terminating watch loop for containerId: c1''])
   \<and> polled 2 False (''c1'', ''watch'') watch_hook ''id+config:a'' = Value ''oom''"
  using
    watch_stops_on_removed_record
      [where this = "isolator [c1 \<mapsto> config_a]" and cmd = watch_hook and containerId = c1
         and config = config_a and stringify = show_object and runWithoutTimeout = polled
         and jsonToProtobuf = "\<lambda>out. RSome (ContainerLimitation out)"
         and infos_at = "\<lambda>n. if n < 2 then [c1 \<mapsto> config_a]
              else m_infos (fst (snd (cleanup show_object failing (isolator [c1 \<mapsto> config_a]) c1)))"
         and n = 2 and fuel = 0 and answer = "Value ''oom''"]
  by (simp add: watch_def watch_loop_def watch_iterate_def watch_body_def watch_try_def
        cleanup_def failing_def isolator_def watch_hook_def polled_def show_object_def input_document_def
        c1_def config_a_def Let_def eval_nat_numeral)

lemma watch_body_no_failure:
  "fst (watch_body jsonToProtobuf command infos containerId answer) \<noteq> Done (Failed m)
   \<and> fst (watch_body jsonToProtobuf command infos containerId answer) \<noteq> Done Discarded"
  by (auto simp: watch_body_def watch_try_def split: Try.splits Result.splits if_splits)

lemma loop_flow_Failed:
  "loop_flow flow = Some (Done (Failed m)) \<Longrightarrow> flow = Done (Failed m)"
  by (induction flow rule: loop_flow.induct) simp_all

lemma watch_loop_never_fails:
  "fst (watch_loop runWithoutTimeout jsonToProtobuf infos_at isDebugMode metadata
          inputStringified command containerId n fuel) \<noteq> Some (Done (Failed m))"
proof (induction fuel arbitrary: n)
  case 0
  then show ?case by (simp add: watch_loop_def)
next
  case (Suc fuel)
  let ?flow = "fst (watch_body jsonToProtobuf command (infos_at n) containerId
                 (fst (watch_iterate (runWithoutTimeout n) isDebugMode metadata
                         inputStringified command)))"
  have "loop_flow ?flow \<noteq> Some (Done (Failed m))"
    using loop_flow_Failed [of ?flow m] watch_body_no_failure by blast
  then show ?case
    using Suc.IH [of "Suc n"]
    by (auto simp: watch_loop_def Let_def split: option.splits)
qed

text \<open>
  Claim C5. At a poll that finds the record: when the hook's execution fails, or its
  non-empty output does not decode, the loop logs the reason, waits for the interval
  of the command and goes on with the next poll, and its result is that of the polls that
  follow; when the output is empty it does the same without logging; when the non-empty
  output decodes, the loop ends there with the limitation. The loop's future is completed
  at this poll only in that last case, and the loop does not end in a failed future.
\<close>

theorem watch_loop_poll_step:
  assumes "containerId \<in> dom (infos_at n)"
  shows "(runWithoutTimeout n isDebugMode metadata command inputStringified = Error e \<longrightarrow>
          watch_loop runWithoutTimeout jsonToProtobuf infos_at isDebugMode metadata
            inputStringified command containerId n (Suc fuel) =
          (fst (watch_loop runWithoutTimeout jsonToProtobuf infos_at isDebugMode metadata
                  inputStringified command containerId (Suc n) fuel),
           [RunWithoutTimeout isDebugMode metadata command inputStringified,
            LogWarning (''Unable to parse output: '' @ e), After (frequence command)] @
           snd (watch_loop runWithoutTimeout jsonToProtobuf infos_at isDebugMode metadata
                  inputStringified command containerId (Suc n) fuel)))
       \<and> (runWithoutTimeout n isDebugMode metadata command inputStringified = Value out \<and>
          out \<noteq> [] \<and> jsonToProtobuf out = RError e \<longrightarrow>
          watch_loop runWithoutTimeout jsonToProtobuf infos_at isDebugMode metadata
            inputStringified command containerId n (Suc fuel) =
          (fst (watch_loop runWithoutTimeout jsonToProtobuf infos_at isDebugMode metadata
                  inputStringified command containerId (Suc n) fuel),
           [RunWithoutTimeout isDebugMode metadata command inputStringified,
            LogWarning (''Unable to deserialize ContainerLimitation: '' @ e),
            After (frequence command)] @
           snd (watch_loop runWithoutTimeout jsonToProtobuf infos_at isDebugMode metadata
                  inputStringified command containerId (Suc n) fuel)))
       \<and> (runWithoutTimeout n isDebugMode metadata command inputStringified = Value [] \<longrightarrow>
          watch_loop runWithoutTimeout jsonToProtobuf infos_at isDebugMode metadata
            inputStringified command containerId n (Suc fuel) =
          (fst (watch_loop runWithoutTimeout jsonToProtobuf infos_at isDebugMode metadata
                  inputStringified command containerId (Suc n) fuel),
           [RunWithoutTimeout isDebugMode metadata command inputStringified,
            After (frequence command)] @
           snd (watch_loop runWithoutTimeout jsonToProtobuf infos_at isDebugMode metadata
                  inputStringified command containerId (Suc n) fuel)))
       \<and> (runWithoutTimeout n isDebugMode metadata command inputStringified = Value out \<and>
          out \<noteq> [] \<and> jsonToProtobuf out = RSome limitation \<longrightarrow>
          watch_loop runWithoutTimeout jsonToProtobuf infos_at isDebugMode metadata
            inputStringified command containerId n (Suc fuel) =
          (Some (Done (Ready limitation)),
           [RunWithoutTimeout isDebugMode metadata command inputStringified]))
       \<and> (fst (watch_loop runWithoutTimeout jsonToProtobuf infos_at isDebugMode metadata
                 inputStringified command containerId n (Suc 0)) = Some (Done future) \<longrightarrow>
          (\<exists>out limitation.
             runWithoutTimeout n isDebugMode metadata command inputStringified = Value out \<and>
             out \<noteq> [] \<and> jsonToProtobuf out = RSome limitation \<and> future = Ready limitation))
       \<and> fst (watch_loop runWithoutTimeout jsonToProtobuf infos_at isDebugMode metadata
                 inputStringified command containerId n (Suc fuel)) \<noteq> Some (Done (Failed m))"
  using assms
    watch_loop_never_fails [of runWithoutTimeout jsonToProtobuf infos_at isDebugMode metadata
      inputStringified command containerId n "Suc fuel" m]
  by (auto simp: watch_loop_def watch_iterate_def watch_body_def watch_try_def Let_def
           split: Try.splits Result.splits if_splits)

theorem watch_loop_poll_step_witness:
  "c1 \<in> dom [c1 \<mapsto> config_a]
   \<and> watch_loop (\<lambda>n d m c i. Error ''exit status 1'') undecodable (\<lambda>n. [c1 \<mapsto> config_a])
        False (''c1'', ''watch'') ''id+config:a'' watch_hook c1 0 2 =
       (None,
        [RunWithoutTimeout False (''c1'', ''watch'') watch_hook ''id+config:a'',
         LogWarning ''Unable to parse output: exit status 1'', After 5,
         RunWithoutTimeout False (''c1'', ''watch'') watch_hook ''id+config:a'',
         LogWarning ''Unable to parse output: exit status 1'', After 5])
   \<and> (undecodable ''junk'' :: ContainerLimitation Result) = RError ''not JSON''
   \<and> watch_loop (\<lambda>n d m c i. Value ''junk'') undecodable (\<lambda>n. [c1 \<mapsto> config_a])
        False (''c1'', ''watch'') ''id+config:a'' watch_hook c1 0 2 =
       (None,
        [RunWithoutTimeout False (''c1'', ''watch'') watch_hook ''id+config:a'',
         LogWarning ''Unable to deserialize ContainerLimitation: not JSON'', After 5,
         RunWithoutTimeout False (''c1'', ''watch'') watch_hook ''id+config:a'',
         LogWarning ''Unable to deserialize ContainerLimitation: not JSON'', After 5])
   \<and> polled 0 False (''c1'', ''watch'') watch_hook ''id+config:a'' = Value []
   \<and> polled 2 False (''c1'', ''watch'') watch_hook ''id+config:a'' = Value ''oom''
   \<and> watch_loop polled (\<lambda>out. RSome (ContainerLimitation out)) (\<lambda>n. [c1 \<mapsto> config_a])
        False (''c1'', ''watch'') ''id+config:a'' watch_hook c1 2 1 =
       (Some (Done (Ready (ContainerLimitation ''oom''))),
        [RunWithoutTimeout False (''c1'', ''watch'') watch_hook ''id+config:a''])
   \<and> watch_loop polled (\<lambda>out. RSome (ContainerLimitation out)) (\<lambda>n. [c1 \<mapsto> config_a])
        False (''c1'', ''watch'') ''id+config:a'' watch_hook c1 0 3 =
       (Some (Done (Ready (ContainerLimitation ''oom''))),
        [RunWithoutTimeout False (''c1'', ''watch'') watch_hook ''id+config:a'', After 5,
         RunWithoutTimeout False (''c1'', ''watch'') watch_hook ''id+config:a'', After 5,
         RunWithoutTimeout False (''c1'', ''watch'') watch_hook ''id+config:a''])"
  using
    watch_loop_poll_step
      [where containerId = c1 and infos_at = "\<lambda>n. [c1 \<mapsto> config_a]" and n = 0
         and runWithoutTimeout = "\<lambda>n d m c i. Error ''exit status 1''"
         and isDebugMode = False and metadata = "(''c1'', ''watch'')" and command = watch_hook
         and inputStringified = "''id+config:a''" and e = "''exit status 1''"
         and jsonToProtobuf = undecodable and fuel = 1]
    watch_loop_poll_step
      [where containerId = c1 and infos_at = "\<lambda>n. [c1 \<mapsto> config_a]" and n = 0
         and runWithoutTimeout = "\<lambda>n d m c i. Value ''junk''"
         and isDebugMode = False and metadata = "(''c1'', ''watch'')" and command = watch_hook
         and inputStringified = "''id+config:a''" and e = "''not JSON''" and out = "''junk''"
         and jsonToProtobuf = undecodable and fuel = 1]
    watch_loop_poll_step
      [where containerId = c1 and infos_at = "\<lambda>n. [c1 \<mapsto> config_a]" and n = 0
         and runWithoutTimeout = polled
         and isDebugMode = False and metadata = "(''c1'', ''watch'')" and command = watch_hook
         and inputStringified = "''id+config:a''"
         and jsonToProtobuf = "\<lambda>out. RSome (ContainerLimitation out)" and fuel = 2]
    watch_loop_poll_step
      [where containerId = c1 and infos_at = "\<lambda>n. [c1 \<mapsto> config_a]" and n = 2
         and runWithoutTimeout = polled
         and isDebugMode = False and metadata = "(''c1'', ''watch'')" and command = watch_hook
         and inputStringified = "''id+config:a''" and out = "''oom''"
         and limitation = "ContainerLimitation ''oom''"
         and future = "Ready (ContainerLimitation ''oom'')"
         and jsonToProtobuf = "\<lambda>out. RSome (ContainerLimitation out)" and fuel = 0]
  by (simp add: watch_loop_def watch_iterate_def watch_body_def watch_try_def
        watch_hook_def polled_def undecodable_def c1_def Let_def eval_nat_numeral)

lemma watch_loop_hook_inputs:
  "\<forall>e \<in> set (snd (watch_loop runWithoutTimeout jsonToProtobuf infos_at isDebugMode metadata
                      inputStringified command containerId n fuel)).
     hook_input e = None \<or> e = RunWithoutTimeout isDebugMode metadata command inputStringified"
proof (induction fuel arbitrary: n)
  case 0
  then show ?case by (simp add: watch_loop_def)
next
  case (Suc fuel)
  let ?body = "watch_body jsonToProtobuf command (infos_at n) containerId
                 (runWithoutTimeout n isDebugMode metadata command inputStringified)"
  have body: "\<forall>e \<in> set (snd ?body). hook_input e = None"
    by (auto simp: watch_body_def watch_try_def
             split: Try.splits Result.splits if_splits)
  show ?case
    using Suc.IH [of "Suc n"] body
    by (auto simp: watch_loop_def watch_iterate_def Let_def split: option.splits)
qed

text \<open>
  Claim C10. With a watch command configured and a record for the identifier when
  \<^verbatim>\<open>watch\<close> is called, every hook invocation among the events of \<^verbatim>\<open>watch\<close> is an
  invocation of the watch command with the one input document serialised from that
  record, for every registry that the polls find later and however long the loop is
  observed.
\<close>

theorem watch_input_serialized_once:
  assumes "m_watchCommand this = Some cmd" and "m_infos this containerId = Some config"
  shows "\<forall>e \<in> set (snd (watch stringify runWithoutTimeout jsonToProtobuf infos_at fuel this
                          containerId)).
           hook_input e = None \<or>
           e = RunWithoutTimeout (m_isDebugMode this) (cid_value containerId, ''watch'') cmd
                 (input_document stringify containerId config)"
proof -
  let ?loop = "watch_loop runWithoutTimeout jsonToProtobuf infos_at (m_isDebugMode this)
                 (cid_value containerId, ''watch'') (input_document stringify containerId config)
                 cmd containerId 0 fuel"
  have w: "snd (watch stringify runWithoutTimeout jsonToProtobuf infos_at fuel this containerId) =
             Spawn # snd ?loop @ onAny (fst ?loop)"
    using assms by (simp add: watch_def Let_def input_document_def)
  have tail: "\<forall>e \<in> set (onAny r). hook_input e = None" for r
    by (induction r rule: onAny.induct) simp_all
  show ?thesis
    unfolding w using watch_loop_hook_inputs [of runWithoutTimeout jsonToProtobuf infos_at
      "m_isDebugMode this" "(cid_value containerId, ''watch'')"
      "input_document stringify containerId config" cmd containerId 0 fuel] tail
    by auto
qed

text \<open>
  The record of \<open>c1\<close> holds another configuration from the second poll on; the three
  polls send the document of the first one.
\<close>

theorem watch_input_serialized_once_witness:
  "m_watchCommand (isolator [c1 \<mapsto> config_a]) = Some watch_hook
   \<and> m_infos (isolator [c1 \<mapsto> config_a]) c1 = Some config_a
   \<and> input_document show_object c1 config_a = ''id+config:a''
   \<and> input_document show_object c1 config_b = ''id+config:b''
   \<and> watch show_object polled (\<lambda>out. RSome (ContainerLimitation out))
        (\<lambda>n. if n < 1 then [c1 \<mapsto> config_a] else [c1 \<mapsto> config_b])
        3 (isolator [c1 \<mapsto> config_a]) c1 =
       (Some (Done (Ready (ContainerLimitation ''oom''))),
        [Spawn,
         RunWithoutTimeout False (''c1'', ''watch'') watch_hook ''id+config:a'', After 5,
         RunWithoutTimeout False (''c1'', ''watch'') watch_hook ''id+config:a'', After 5,
         RunWithoutTimeout False (''c1'', ''watch'') watch_hook ''id+config:a'',
         LogWarning ''Terminating watch loop'', Terminate, LogWarning ''Watch loop Terminated''])"
  using
    watch_input_serialized_once
      [where this = "isolator [c1 \<mapsto> config_a]" and cmd = watch_hook and containerId = c1
         and config = config_a and stringify = show_object and runWithoutTimeout = polled
         and jsonToProtobuf = "\<lambda>out. RSome (ContainerLimitation out)"
         and infos_at = "\<lambda>n. if n < 1 then [c1 \<mapsto> config_a] else [c1 \<mapsto> config_b]"
         and fuel = 3]
  by (simp add: watch_def watch_loop_def watch_iterate_def watch_body_def watch_try_def
        isolator_def watch_hook_def polled_def show_object_def input_document_def
        c1_def config_a_def config_b_def Let_def eval_nat_numeral)

end
